theory Spec2Isabelle
  imports Complex_Main
begin

section \<open>The evaluator of the conditions language\<close>

text \<open>
  A shallow embedding of the tree-walking evaluator of the package \<open>conditions\<close>
  (functions \<open>Evaluate\<close>, \<open>evaluateSubtree\<close>, \<open>applyOperator\<close>, the sixteen
  \<open>apply...\<close> functions and the \<open>get...\<close> accessors).

  Conventions of the model:
  \<^item> a Go function returning \<open>(v, err)\<close> returns \<open>Ret v err\<close>, where \<open>err\<close> is
    \<open>None\<close> for Go's \<open>nil\<close> error; a run-time panic is the value \<open>Panic p\<close>;
  \<^item> a \<open>*BooleanLiteral\<close> returned by an operator is a \<open>bool option\<close>: \<open>None\<close>
    is the nil pointer, \<open>Some b\<close> a pointer to a literal whose \<open>Val\<close> is \<open>b\<close>;
  \<^item> \<open>float64\<close> values are the real numbers they denote (NaN, the infinities and
    the rounding of large integers are outside the model);
  \<^item> a \<open>time.Time\<close> is an instant in nanoseconds, a \<open>time.Duration\<close> a signed
    64-bit count of nanoseconds, kept as an \<open>int\<close> with the wrap-around written out;
  \<^item> the two things the evaluator takes from its environment are parameters:
    \<open>regexp.MatchString\<close> (the parameter \<open>rx\<close>) and the reading of the clock
    taken by \<open>time.Since\<close> (the parameter \<open>now\<close>, one reading for one call).
\<close>

subsection \<open>Tokens and expressions\<close>

text \<open>
  Modelled from the spec: the declarations of \<open>Token\<close> and of the \<open>Expr\<close> node
  types are in files of the package that are not part of the sources at hand. The
  operator names are the ones \<open>applyOperator\<close> dispatches on; the other token kinds
  are those of section 3 of the specification.
\<close>

datatype Token =
    ILLEGAL | EOF | IDENT | VARIABLE | STRING | NUMBER | BOOLEAN | LPAREN | RPAREN
  | AND | OR | XOR | NAND
  | EQ | NEQ | GT | GTE | LT | LTE
  | IN | NOTIN | CONTAINS | BEFORE | EREG | NEREG

type_synonym time = int
type_synonym duration = int

text \<open>
  Modelled from the spec: the variants of \<open>Expr\<close> (section 3). \<open>Expr\<close> is a Go
  interface, so two more values are needed: \<open>NilExpr\<close> is the nil interface value,
  which \<open>Evaluate\<close> and \<open>evaluateSubtree\<close> test for, and \<open>NilBooleanLiteral\<close> is the
  nil \<open>*BooleanLiteral\<close> pointer held in an \<open>Expr\<close>, which is what
  \<open>evaluateSubtree\<close> hands on when an operator returns \<open>nil, err\<close>.
\<close>

datatype Expr =
    NilExpr
  | BinaryExpr Token Expr Expr
  | ParenExpr Expr
  | VarRef string
  | BooleanLiteral bool
  | NilBooleanLiteral
  | NumberLiteral real
  | StringLiteral string
  | TimeLiteral time
  | DurationLiteral duration
  | SliceStringLiteral "string list"
  | SliceNumberLiteral "real list"

subsection \<open>Errors, panics and results\<close>

datatype Kind =
    reflect_Bool | reflect_Int | reflect_Int8 | reflect_Int16 | reflect_Int32 | reflect_Int64
  | reflect_Uint | reflect_Uint8 | reflect_Uint16 | reflect_Uint32 | reflect_Uint64
  | reflect_Uintptr | reflect_Float32 | reflect_Float64 | reflect_Complex64
  | reflect_Complex128 | reflect_Array | reflect_Chan | reflect_Func | reflect_Interface
  | reflect_Map | reflect_Pointer | reflect_Slice | reflect_String | reflect_Struct
  | reflect_UnsafePointer

text \<open>One constructor for each \<open>fmt.Errorf\<close> of the source, and one for the error of
  \<open>regexp.MatchString\<close>.\<close>

datatype error =
    ProvidedExpressionIsNil
  | UnexpectedRootResult Expr
  | ArgsConvertToMapNotOk
  | ArgumentNotFound string
  | ArgumentNotFoundInArgs string
  | ArgsIsNotMapOrStruct
  | UnsupportedArgumentType string Kind
  | UnsupportedOperator Token
  | UnknownLiteralType Expr
  | CannotCompareString
  | CannotCompareNumber
  | CannotCompareBoolean
  | NotABoolean Expr
  | NotATime Expr
  | NotAString Expr
  | NotASliceOfFloat64 Expr
  | NotASliceOfString Expr
  | NotANumber Expr
  | RegexpError string

datatype panic =
    NilPointerDereference
  | InterfaceConversion
  | UnexportedField

datatype 'a result = Ret 'a "error option" | Panic panic

subsection \<open>The record and its values\<close>

text \<open>
  A value of type \<open>interface{}\<close> found in the record. The code looks at it through
  \<open>val.(time.Time)\<close>, \<open>reflect.TypeOf(val).Kind()\<close> and the type assertions
  \<open>val.(int)\<close>, \<open>val.(int32)\<close>, \<open>val.(int64)\<close>, \<open>val.(float32)\<close>,
  \<open>val.(float64)\<close>, \<open>val.(string)\<close>, \<open>val.(bool)\<close> and \<open>val.([]string)\<close>, so the
  model has one constructor for each of these nine types, one for the nil interface,
  and \<open>VOther k\<close> for a value of any other type, of which only the kind \<open>k\<close> is
  observed: \<open>[]int{1, 2}\<close> is \<open>VOther reflect_Slice\<close>, a \<open>time.Duration\<close> is
  \<open>VOther reflect_Int64\<close>, a \<open>uint8\<close> is \<open>VOther reflect_Uint8\<close>.
\<close>

datatype val =
    VNil
  | VTime time
  | VInt int
  | VInt32 int
  | VInt64 int
  | VFloat32 real
  | VFloat64 real
  | VString string
  | VBool bool
  | VSliceString "string list"
  | VOther Kind

text \<open>\<open>reflect.TypeOf(val).Kind()\<close>; calling \<open>Kind\<close> on the nil \<open>Type\<close> that
  \<open>reflect.TypeOf(nil)\<close> returns panics.\<close>

fun KindOf :: "val \<Rightarrow> Kind result" where
  "KindOf VNil = Panic NilPointerDereference"
| "KindOf (VTime t) = Ret reflect_Struct None"
| "KindOf (VInt i) = Ret reflect_Int None"
| "KindOf (VInt32 i) = Ret reflect_Int32 None"
| "KindOf (VInt64 i) = Ret reflect_Int64 None"
| "KindOf (VFloat32 x) = Ret reflect_Float32 None"
| "KindOf (VFloat64 x) = Ret reflect_Float64 None"
| "KindOf (VString s) = Ret reflect_String None"
| "KindOf (VBool b) = Ret reflect_Bool None"
| "KindOf (VSliceString ss) = Ret reflect_Slice None"
| "KindOf (VOther k) = Ret k None"

text \<open>
  The argument \<open>args\<close> of \<open>Evaluate\<close>: the nil interface, a
  \<open>map[string]interface{}\<close>, a struct (its fields by name), or a value of any other
  type, of which only the kind is observed (\<open>ArgsOther reflect_String\<close> is a string,
  \<open>ArgsOther reflect_Map\<close> a map of another type such as \<open>map[string]int\<close>).
\<close>

datatype args =
    ArgsNil
  | ArgsMap "string \<rightharpoonup> val"
  | ArgsStruct "string \<rightharpoonup> val"
  | ArgsOther Kind

fun ArgsKind :: "args \<Rightarrow> Kind result" where
  "ArgsKind ArgsNil = Panic NilPointerDereference"
| "ArgsKind (ArgsMap m) = Ret reflect_Map None"
| "ArgsKind (ArgsStruct fs) = Ret reflect_Struct None"
| "ArgsKind (ArgsOther k) = Ret k None"

text \<open>A struct field is exported when its name begins with an upper-case letter
  (ASCII here); \<open>reflect.Value.Interface\<close> panics on a field that is not.\<close>

definition exported :: "string \<Rightarrow> bool" where
  "exported name =
     (case name of [] \<Rightarrow> False
      | c # cs \<Rightarrow> 65 \<le> (of_char c :: nat) \<and> (of_char c :: nat) \<le> 90)"

subsection \<open>Accessors\<close>

text \<open>The package-level \<open>falseExpr\<close>, a pointer to a literal \<open>false\<close>. No function
  of the package assigns through it: the two assignments to a \<open>Val\<close> field, in
  \<open>applyNOTIN\<close> and \<open>applyNEREG\<close>, go through the result of \<open>applyIN\<close> and
  \<open>applyEREG\<close>, which is nil or freshly allocated.\<close>

definition falseExpr :: "bool option" where
  "falseExpr = Some False"

text \<open>The conversion of a \<open>*BooleanLiteral\<close> to the interface \<open>Expr\<close>.\<close>

fun asExpr :: "bool option \<Rightarrow> Expr" where
  "asExpr None = NilBooleanLiteral"
| "asExpr (Some b) = BooleanLiteral b"

fun getBoolean :: "Expr \<Rightarrow> bool result" where
  "getBoolean (BooleanLiteral v) = Ret v None"
| "getBoolean NilBooleanLiteral = Panic NilPointerDereference"
| "getBoolean e = Ret False (Some (NotABoolean e))"

fun getTime :: "Expr \<Rightarrow> time result" where
  "getTime (TimeLiteral v) = Ret v None"
| "getTime e = Ret 0 (Some (NotATime e))"

fun getTimeDuration :: "Expr \<Rightarrow> duration result" where
  "getTimeDuration (DurationLiteral v) = Ret v None"
| "getTimeDuration e = Ret 0 (Some (NotATime e))"

fun getString :: "Expr \<Rightarrow> string result" where
  "getString (StringLiteral v) = Ret v None"
| "getString e = Ret [] (Some (NotAString e))"

fun getSliceNumber :: "Expr \<Rightarrow> real list result" where
  "getSliceNumber (SliceNumberLiteral v) = Ret v None"
| "getSliceNumber e = Ret [] (Some (NotASliceOfFloat64 e))"

fun getSliceString :: "Expr \<Rightarrow> string list result" where
  "getSliceString (SliceStringLiteral v) = Ret v None"
| "getSliceString e = Ret [] (Some (NotASliceOfString e))"

fun getNumber :: "Expr \<Rightarrow> real result" where
  "getNumber (NumberLiteral v) = Ret v None"
| "getNumber e = Ret 0 (Some (NotANumber e))"

subsection \<open>The operators\<close>

text \<open>The four logical operators read two booleans; the first accessor that fails
  ends the call with \<open>nil, err\<close>.\<close>

definition applyAND :: "Expr \<Rightarrow> Expr \<Rightarrow> bool option result" where
  "applyAND l r =
     (case getBoolean l of
        Panic p \<Rightarrow> Panic p
      | Ret a (Some err) \<Rightarrow> Ret None (Some err)
      | Ret a None \<Rightarrow>
          (case getBoolean r of
             Panic p \<Rightarrow> Panic p
           | Ret b (Some err) \<Rightarrow> Ret None (Some err)
           | Ret b None \<Rightarrow> Ret (Some (a \<and> b)) None))"

definition applyOR :: "Expr \<Rightarrow> Expr \<Rightarrow> bool option result" where
  "applyOR l r =
     (case getBoolean l of
        Panic p \<Rightarrow> Panic p
      | Ret a (Some err) \<Rightarrow> Ret None (Some err)
      | Ret a None \<Rightarrow>
          (case getBoolean r of
             Panic p \<Rightarrow> Panic p
           | Ret b (Some err) \<Rightarrow> Ret None (Some err)
           | Ret b None \<Rightarrow> Ret (Some (a \<or> b)) None))"

definition applyXOR :: "Expr \<Rightarrow> Expr \<Rightarrow> bool option result" where
  "applyXOR l r =
     (case getBoolean l of
        Panic p \<Rightarrow> Panic p
      | Ret a (Some err) \<Rightarrow> Ret None (Some err)
      | Ret a None \<Rightarrow>
          (case getBoolean r of
             Panic p \<Rightarrow> Panic p
           | Ret b (Some err) \<Rightarrow> Ret None (Some err)
           | Ret b None \<Rightarrow> Ret (Some (a \<noteq> b)) None))"

definition applyNAND :: "Expr \<Rightarrow> Expr \<Rightarrow> bool option result" where
  "applyNAND l r =
     (case getBoolean l of
        Panic p \<Rightarrow> Panic p
      | Ret a (Some err) \<Rightarrow> Ret None (Some err)
      | Ret a None \<Rightarrow>
          (case getBoolean r of
             Panic p \<Rightarrow> Panic p
           | Ret b (Some err) \<Rightarrow> Ret None (Some err)
           | Ret b None \<Rightarrow> Ret (Some (\<not> (a \<and> b))) None))"

text \<open>\<open>applyEQ\<close> and \<open>applyNQ\<close> try the left operand as a string, then as a number,
  then as a boolean; the error of a failed trial is dropped and the next trial
  starts. After the three trials the functions return \<open>falseExpr, nil\<close>.\<close>

definition applyEQ :: "Expr \<Rightarrow> Expr \<Rightarrow> bool option result" where
  "applyEQ l r =
     (case getString l of
        Panic p \<Rightarrow> Panic p
      | Ret as None \<Rightarrow>
          (case getString r of
             Panic p \<Rightarrow> Panic p
           | Ret bs (Some err) \<Rightarrow> Ret falseExpr (Some CannotCompareString)
           | Ret bs None \<Rightarrow> Ret (Some (as = bs)) None)
      | Ret as (Some err) \<Rightarrow>
     (case getNumber l of
        Panic p \<Rightarrow> Panic p
      | Ret an None \<Rightarrow>
          (case getNumber r of
             Panic p \<Rightarrow> Panic p
           | Ret bn (Some err) \<Rightarrow> Ret falseExpr (Some CannotCompareNumber)
           | Ret bn None \<Rightarrow> Ret (Some (an = bn)) None)
      | Ret an (Some err) \<Rightarrow>
     (case getBoolean l of
        Panic p \<Rightarrow> Panic p
      | Ret ab None \<Rightarrow>
          (case getBoolean r of
             Panic p \<Rightarrow> Panic p
           | Ret bb (Some err) \<Rightarrow> Ret falseExpr (Some CannotCompareBoolean)
           | Ret bb None \<Rightarrow> Ret (Some (ab = bb)) None)
      | Ret ab (Some err) \<Rightarrow> Ret falseExpr None)))"

definition applyNQ :: "Expr \<Rightarrow> Expr \<Rightarrow> bool option result" where
  "applyNQ l r =
     (case getString l of
        Panic p \<Rightarrow> Panic p
      | Ret as None \<Rightarrow>
          (case getString r of
             Panic p \<Rightarrow> Panic p
           | Ret bs (Some err) \<Rightarrow> Ret falseExpr (Some CannotCompareString)
           | Ret bs None \<Rightarrow> Ret (Some (as \<noteq> bs)) None)
      | Ret as (Some err) \<Rightarrow>
     (case getNumber l of
        Panic p \<Rightarrow> Panic p
      | Ret an None \<Rightarrow>
          (case getNumber r of
             Panic p \<Rightarrow> Panic p
           | Ret bn (Some err) \<Rightarrow> Ret falseExpr (Some CannotCompareNumber)
           | Ret bn None \<Rightarrow> Ret (Some (an \<noteq> bn)) None)
      | Ret an (Some err) \<Rightarrow>
     (case getBoolean l of
        Panic p \<Rightarrow> Panic p
      | Ret ab None \<Rightarrow>
          (case getBoolean r of
             Panic p \<Rightarrow> Panic p
           | Ret bb (Some err) \<Rightarrow> Ret falseExpr (Some CannotCompareBoolean)
           | Ret bb None \<Rightarrow> Ret (Some (ab \<noteq> bb)) None)
      | Ret ab (Some err) \<Rightarrow> Ret falseExpr None)))"

text \<open>The four numeric comparisons; \<open>applyLTE\<close> alone returns \<open>falseExpr\<close> with the
  error of the accessor.\<close>

definition applyGT :: "Expr \<Rightarrow> Expr \<Rightarrow> bool option result" where
  "applyGT l r =
     (case getNumber l of
        Panic p \<Rightarrow> Panic p
      | Ret a (Some err) \<Rightarrow> Ret None (Some err)
      | Ret a None \<Rightarrow>
          (case getNumber r of
             Panic p \<Rightarrow> Panic p
           | Ret b (Some err) \<Rightarrow> Ret None (Some err)
           | Ret b None \<Rightarrow> Ret (Some (a > b)) None))"

definition applyGTE :: "Expr \<Rightarrow> Expr \<Rightarrow> bool option result" where
  "applyGTE l r =
     (case getNumber l of
        Panic p \<Rightarrow> Panic p
      | Ret a (Some err) \<Rightarrow> Ret None (Some err)
      | Ret a None \<Rightarrow>
          (case getNumber r of
             Panic p \<Rightarrow> Panic p
           | Ret b (Some err) \<Rightarrow> Ret None (Some err)
           | Ret b None \<Rightarrow> Ret (Some (a \<ge> b)) None))"

definition applyLT :: "Expr \<Rightarrow> Expr \<Rightarrow> bool option result" where
  "applyLT l r =
     (case getNumber l of
        Panic p \<Rightarrow> Panic p
      | Ret a (Some err) \<Rightarrow> Ret None (Some err)
      | Ret a None \<Rightarrow>
          (case getNumber r of
             Panic p \<Rightarrow> Panic p
           | Ret b (Some err) \<Rightarrow> Ret None (Some err)
           | Ret b None \<Rightarrow> Ret (Some (a < b)) None))"

definition applyLTE :: "Expr \<Rightarrow> Expr \<Rightarrow> bool option result" where
  "applyLTE l r =
     (case getNumber l of
        Panic p \<Rightarrow> Panic p
      | Ret a (Some err) \<Rightarrow> Ret falseExpr (Some err)
      | Ret a None \<Rightarrow>
          (case getNumber r of
             Panic p \<Rightarrow> Panic p
           | Ret b (Some err) \<Rightarrow> Ret falseExpr (Some err)
           | Ret b None \<Rightarrow> Ret (Some (a \<le> b)) None))"

text \<open>The loop \<open>for _, e := range b { if a == e { found = true } }\<close>, which runs to
  the end of the slice.\<close>

definition scan :: "'a \<Rightarrow> 'a list \<Rightarrow> bool" where
  "scan a b = foldl (\<lambda>found e. if a = e then True else found) False b"

definition applyIN :: "Expr \<Rightarrow> Expr \<Rightarrow> bool option result" where
  "applyIN l r =
     (case l of
        StringLiteral _ \<Rightarrow>
          (case getString l of
             Panic p \<Rightarrow> Panic p
           | Ret a (Some err) \<Rightarrow> Ret None (Some err)
           | Ret a None \<Rightarrow>
               (case getSliceString r of
                  Panic p \<Rightarrow> Panic p
                | Ret b (Some err) \<Rightarrow> Ret None (Some err)
                | Ret b None \<Rightarrow> Ret (Some (scan a b)) None))
      | NumberLiteral _ \<Rightarrow>
          (case getNumber l of
             Panic p \<Rightarrow> Panic p
           | Ret a (Some err) \<Rightarrow> Ret None (Some err)
           | Ret a None \<Rightarrow>
               (case getSliceNumber r of
                  Panic p \<Rightarrow> Panic p
                | Ret b (Some err) \<Rightarrow> Ret None (Some err)
                | Ret b None \<Rightarrow> Ret (Some (scan a b)) None))
      | _ \<Rightarrow> Ret None (Some (UnknownLiteralType l)))"

text \<open>\<open>applyNOTIN\<close> assigns \<open>result.Val = !result.Val\<close> before it looks at \<open>err\<close>:
  with the nil pointer that \<open>applyIN\<close> returns beside an error, the assignment is a
  nil pointer dereference.\<close>

definition applyNOTIN :: "Expr \<Rightarrow> Expr \<Rightarrow> bool option result" where
  "applyNOTIN l r =
     (case applyIN l r of
        Panic p \<Rightarrow> Panic p
      | Ret None err \<Rightarrow> Panic NilPointerDereference
      | Ret (Some v) err \<Rightarrow> Ret (Some (\<not> v)) err)"

text \<open>\<open>strings.Contains\<close>.\<close>

fun Contains :: "string \<Rightarrow> string \<Rightarrow> bool" where
  "Contains [] substr = (substr = [])"
| "Contains (c # s) substr =
     (take (length substr) (c # s) = substr \<or> Contains s substr)"

definition applyContains :: "Expr \<Rightarrow> Expr \<Rightarrow> bool option result" where
  "applyContains l r =
     (case r of
        StringLiteral _ \<Rightarrow>
          (case getString r of
             Panic p \<Rightarrow> Panic p
           | Ret a (Some err) \<Rightarrow> Ret None (Some err)
           | Ret a None \<Rightarrow>
               (case l of
                  StringLiteral _ \<Rightarrow>
                    (case getString l of
                       Panic p \<Rightarrow> Panic p
                     | Ret bb (Some err) \<Rightarrow> Ret None (Some err)
                     | Ret bb None \<Rightarrow> Ret (Some (Contains bb a)) None)
                | _ \<Rightarrow>
                    (case getSliceString l of
                       Panic p \<Rightarrow> Panic p
                     | Ret b (Some err) \<Rightarrow> Ret None (Some err)
                     | Ret b None \<Rightarrow> Ret (Some (scan a b)) None)))
      | NumberLiteral _ \<Rightarrow>
          (case getNumber r of
             Panic p \<Rightarrow> Panic p
           | Ret a (Some err) \<Rightarrow> Ret None (Some err)
           | Ret a None \<Rightarrow>
               (case getSliceNumber l of
                  Panic p \<Rightarrow> Panic p
                | Ret b (Some err) \<Rightarrow> Ret None (Some err)
                | Ret b None \<Rightarrow> Ret (Some (scan a b)) None))
      | _ \<Rightarrow> Ret None (Some (UnknownLiteralType r)))"

text \<open>
  The arithmetic of \<open>applyBefore\<close>. \<open>int64\<close> is the wrap-around of a signed 64-bit
  result. \<open>DurationOfFloat\<close> is the conversion \<open>time.Duration(days)\<close> of a
  \<open>float64\<close>: the fraction is discarded; for a value outside the range of \<open>int64\<close>
  Go leaves the result to the implementation, and the model takes the smallest
  \<open>int64\<close>, as amd64 does. \<open>Since\<close> is \<open>time.Since\<close> at the clock reading \<open>now\<close>:
  the difference of the two instants, which \<open>Time.Sub\<close> saturates at the ends of
  the range of \<open>Duration\<close>.
\<close>

definition int64 :: "int \<Rightarrow> int" where
  "int64 x = (x + 2 ^ 63) mod 2 ^ 64 - 2 ^ 63"

definition trunc :: "real \<Rightarrow> int" where
  "trunc x = (if 0 \<le> x then \<lfloor>x\<rfloor> else \<lceil>x\<rceil>)"

definition DurationOfFloat :: "real \<Rightarrow> duration" where
  "DurationOfFloat x =
     (if - (2 ^ 63) \<le> trunc x \<and> trunc x < 2 ^ 63 then trunc x else - (2 ^ 63))"

definition Second :: "duration" where
  "Second = 1000000000"

definition Since :: "time \<Rightarrow> time \<Rightarrow> duration" where
  "Since now t = max (- (2 ^ 63)) (min (2 ^ 63 - 1) (now - t))"

text \<open>The inner \<open>switch r.(type)\<close> of \<open>applyBefore\<close> has the one case
  \<open>*NumberLiteral\<close> and no default: any other right operand falls through to the
  \<open>return &BooleanLiteral{Val: false}, nil\<close> that ends the function.\<close>

definition applyBefore :: "time \<Rightarrow> Expr \<Rightarrow> Expr \<Rightarrow> bool option result" where
  "applyBefore now l r =
     (case l of
        TimeLiteral _ \<Rightarrow>
          (case getTime l of
             Panic p \<Rightarrow> Panic p
           | Ret dt (Some err) \<Rightarrow> Ret None (Some err)
           | Ret dt None \<Rightarrow>
               (case r of
                  NumberLiteral _ \<Rightarrow>
                    (case getNumber r of
                       Panic p \<Rightarrow> Panic p
                     | Ret days (Some err) \<Rightarrow> Ret None (Some err)
                     | Ret days None \<Rightarrow>
                         (let dur = int64 (int64 (DurationOfFloat days * Second) * 86400)
                          in if Since now dt > dur then Ret (Some True) None
                             else Ret (Some False) None))
                | _ \<Rightarrow> Ret (Some False) None))
      | _ \<Rightarrow> Ret None (Some (UnknownLiteralType l)))"

text \<open>\<open>regexp.MatchString(pattern, s)\<close> is the parameter \<open>rx\<close>: \<open>rx pattern s\<close> is
  \<open>None\<close> when the pattern does not compile (Go then returns \<open>false\<close> and an
  error), and \<open>Some matched\<close> otherwise. \<open>applyEREG\<close> returns a non-nil literal
  together with that error.\<close>

type_synonym matcher = "string \<Rightarrow> string \<Rightarrow> bool option"

definition MatchString :: "matcher \<Rightarrow> string \<Rightarrow> string \<Rightarrow> bool result" where
  "MatchString rx pattern s =
     (case rx pattern s of
        None \<Rightarrow> Ret False (Some (RegexpError pattern))
      | Some matched \<Rightarrow> Ret matched None)"

definition applyEREG :: "matcher \<Rightarrow> Expr \<Rightarrow> Expr \<Rightarrow> bool option result" where
  "applyEREG rx l r =
     (case getString l of
        Panic p \<Rightarrow> Panic p
      | Ret a (Some err) \<Rightarrow> Ret None (Some err)
      | Ret a None \<Rightarrow>
          (case getString r of
             Panic p \<Rightarrow> Panic p
           | Ret b (Some err) \<Rightarrow> Ret None (Some err)
           | Ret b None \<Rightarrow>
               (case MatchString rx b a of
                  Panic p \<Rightarrow> Panic p
                | Ret match err \<Rightarrow> Ret (Some match) err)))"

text \<open>\<open>applyNEREG\<close> has the shape of \<open>applyNOTIN\<close>.\<close>

definition applyNEREG :: "matcher \<Rightarrow> Expr \<Rightarrow> Expr \<Rightarrow> bool option result" where
  "applyNEREG rx l r =
     (case applyEREG rx l r of
        Panic p \<Rightarrow> Panic p
      | Ret None err \<Rightarrow> Panic NilPointerDereference
      | Ret (Some v) err \<Rightarrow> Ret (Some (\<not> v)) err)"

definition applyOperator ::
  "matcher \<Rightarrow> time \<Rightarrow> Token \<Rightarrow> Expr \<Rightarrow> Expr \<Rightarrow> bool option result" where
  "applyOperator rx now op l r =
     (case op of
        AND \<Rightarrow> applyAND l r
      | OR \<Rightarrow> applyOR l r
      | EQ \<Rightarrow> applyEQ l r
      | NEQ \<Rightarrow> applyNQ l r
      | GT \<Rightarrow> applyGT l r
      | GTE \<Rightarrow> applyGTE l r
      | LT \<Rightarrow> applyLT l r
      | LTE \<Rightarrow> applyLTE l r
      | XOR \<Rightarrow> applyXOR l r
      | NAND \<Rightarrow> applyNAND l r
      | IN \<Rightarrow> applyIN l r
      | CONTAINS \<Rightarrow> applyContains l r
      | BEFORE \<Rightarrow> applyBefore now l r
      | NOTIN \<Rightarrow> applyNOTIN l r
      | EREG \<Rightarrow> applyEREG rx l r
      | NEREG \<Rightarrow> applyNEREG rx l r
      | _ \<Rightarrow> Ret (Some False) (Some (UnsupportedOperator op)))"

subsection \<open>Resolving a variable\<close>

text \<open>
  The \<open>*VarRef\<close> case of \<open>evaluateSubtree\<close>, in its two halves. \<open>classifyArg\<close> is
  the second half: the test \<open>val.(time.Time)\<close>, then the switch on the kind of the
  value. Each case of the switch converts with a type assertion of the one-result
  form, which panics when the value has the kind but not the type of the case:
  \<open>val.([]string)\<close> on a \<open>[]int\<close>, \<open>val.(int64)\<close> on a \<open>time.Duration\<close>.
\<close>

definition classifyArg :: "string \<Rightarrow> val \<Rightarrow> Expr result" where
  "classifyArg name v =
     (case v of
        VTime t \<Rightarrow> Ret (TimeLiteral t) None
      | _ \<Rightarrow>
          (case KindOf v of
             Panic p \<Rightarrow> Panic p
           | Ret kind _ \<Rightarrow>
               (case kind of
                  reflect_Int \<Rightarrow>
                    (case v of VInt i \<Rightarrow> Ret (NumberLiteral (real_of_int i)) None
                     | _ \<Rightarrow> Panic InterfaceConversion)
                | reflect_Int32 \<Rightarrow>
                    (case v of VInt32 i \<Rightarrow> Ret (NumberLiteral (real_of_int i)) None
                     | _ \<Rightarrow> Panic InterfaceConversion)
                | reflect_Int64 \<Rightarrow>
                    (case v of VInt64 i \<Rightarrow> Ret (NumberLiteral (real_of_int i)) None
                     | _ \<Rightarrow> Panic InterfaceConversion)
                | reflect_Float32 \<Rightarrow>
                    (case v of VFloat32 x \<Rightarrow> Ret (NumberLiteral x) None
                     | _ \<Rightarrow> Panic InterfaceConversion)
                | reflect_Float64 \<Rightarrow>
                    (case v of VFloat64 x \<Rightarrow> Ret (NumberLiteral x) None
                     | _ \<Rightarrow> Panic InterfaceConversion)
                | reflect_String \<Rightarrow>
                    (case v of VString x \<Rightarrow> Ret (StringLiteral x) None
                     | _ \<Rightarrow> Panic InterfaceConversion)
                | reflect_Bool \<Rightarrow>
                    (case v of VBool x \<Rightarrow> Ret (BooleanLiteral x) None
                     | _ \<Rightarrow> Panic InterfaceConversion)
                | reflect_Slice \<Rightarrow>
                    (case v of VSliceString x \<Rightarrow> Ret (SliceStringLiteral x) None
                     | _ \<Rightarrow> Panic InterfaceConversion)
                | _ \<Rightarrow> Ret (asExpr falseExpr) (Some (UnsupportedArgumentType name kind)))))"

text \<open>
  The first half: the switch on the kind of \<open>args\<close>. Under \<open>reflect.Map\<close> the
  assertion \<open>args.(map[string]interface{})\<close> is of the two-result form and fails
  for every other map type. Under \<open>reflect.Struct\<close>, \<open>FieldByName\<close> gives an
  invalid value for a name that is no field, and \<open>Interface\<close> panics on a field that
  is not exported. (An \<open>ArgsOther reflect_Struct\<close> stands for no Go value, structs
  being \<open>ArgsStruct\<close>; the model reads it as a struct without fields.)
\<close>

definition resolveVarRef :: "string \<Rightarrow> args \<Rightarrow> Expr result" where
  "resolveVarRef index args =
     (case ArgsKind args of
        Panic p \<Rightarrow> Panic p
      | Ret argsKind _ \<Rightarrow>
          (case argsKind of
             reflect_Map \<Rightarrow>
               (case args of
                  ArgsMap argsMap \<Rightarrow>
                    (case argsMap index of
                       None \<Rightarrow> Ret (asExpr falseExpr) (Some (ArgumentNotFound index))
                     | Some v \<Rightarrow> classifyArg index v)
                | _ \<Rightarrow> Ret (asExpr falseExpr) (Some ArgsConvertToMapNotOk))
           | reflect_Struct \<Rightarrow>
               (case args of
                  ArgsStruct fields \<Rightarrow>
                    (case fields index of
                       None \<Rightarrow> Ret (asExpr falseExpr) (Some (ArgumentNotFoundInArgs index))
                     | Some v \<Rightarrow>
                         if exported index then classifyArg index v
                         else Panic UnexportedField)
                | _ \<Rightarrow> Ret (asExpr falseExpr) (Some (ArgumentNotFoundInArgs index)))
           | _ \<Rightarrow> Ret (asExpr falseExpr) (Some ArgsIsNotMapOrStruct)))"

subsection \<open>The evaluator\<close>

fun evaluateSubtree :: "matcher \<Rightarrow> time \<Rightarrow> Expr \<Rightarrow> args \<Rightarrow> Expr result" where
  "evaluateSubtree rx now NilExpr args =
     Ret (asExpr falseExpr) (Some ProvidedExpressionIsNil)"
| "evaluateSubtree rx now (ParenExpr e) args = evaluateSubtree rx now e args"
| "evaluateSubtree rx now (BinaryExpr op lhs rhs) args =
     (case evaluateSubtree rx now lhs args of
        Panic p \<Rightarrow> Panic p
      | Ret lv (Some err) \<Rightarrow> Ret (asExpr falseExpr) (Some err)
      | Ret lv None \<Rightarrow>
          (case evaluateSubtree rx now rhs args of
             Panic p \<Rightarrow> Panic p
           | Ret rv (Some err) \<Rightarrow> Ret (asExpr falseExpr) (Some err)
           | Ret rv None \<Rightarrow>
               (case applyOperator rx now op lv rv of
                  Panic p \<Rightarrow> Panic p
                | Ret b err \<Rightarrow> Ret (asExpr b) err)))"
| "evaluateSubtree rx now (VarRef index) args = resolveVarRef index args"
| "evaluateSubtree rx now expr args = Ret expr None"

definition Evaluate :: "matcher \<Rightarrow> time \<Rightarrow> Expr \<Rightarrow> args \<Rightarrow> bool result" where
  "Evaluate rx now expr args =
     (if expr = NilExpr then Ret False (Some ProvidedExpressionIsNil)
      else
        (case evaluateSubtree rx now expr args of
           Panic p \<Rightarrow> Panic p
         | Ret result (Some err) \<Rightarrow> Ret False (Some err)
         | Ret result None \<Rightarrow>
             (case result of
                BooleanLiteral v \<Rightarrow> Ret v None
              | NilBooleanLiteral \<Rightarrow> Panic NilPointerDereference
              | _ \<Rightarrow> Ret False (Some (UnexpectedRootResult result)))))"

subsection \<open>Notions used in the statements\<close>

text \<open>An instance of the parameter \<open>rx\<close> for the examples: it reads the pattern as
  literal text, which is what \<open>regexp.MatchString\<close> does on a pattern without
  metacharacters.\<close>

definition literalMatcher :: "matcher" where
  "literalMatcher pattern s = Some (Contains s pattern)"

text \<open>The expression has a variable reference among its nodes.\<close>

fun hasVarRef :: "Expr \<Rightarrow> bool" where
  "hasVarRef (VarRef name) = True"
| "hasVarRef (ParenExpr e) = hasVarRef e"
| "hasVarRef (BinaryExpr op lhs rhs) = (hasVarRef lhs \<or> hasVarRef rhs)"
| "hasVarRef e = False"

text \<open>The expression has the operator \<open>BEFORE\<close> among its nodes.\<close>

fun usesBEFORE :: "Expr \<Rightarrow> bool" where
  "usesBEFORE (ParenExpr e) = usesBEFORE e"
| "usesBEFORE (BinaryExpr op lhs rhs) =
     (op = BEFORE \<or> usesBEFORE lhs \<or> usesBEFORE rhs)"
| "usesBEFORE e = False"

text \<open>The comparable operand pairs of \<open>EQ\<close> and \<open>NEQ\<close>: two strings, two numbers or
  two booleans.\<close>

fun comparable :: "Expr \<Rightarrow> Expr \<Rightarrow> bool" where
  "comparable (StringLiteral a) (StringLiteral b) = True"
| "comparable (NumberLiteral a) (NumberLiteral b) = True"
| "comparable (BooleanLiteral a) (BooleanLiteral b) = True"
| "comparable l r = False"

text \<open>What the specification says of \<open>BEFORE\<close>, in its own words: the time elapsed
  since the left timestamp exceeds the right operand, a count of days, times 86400
  seconds.\<close>

definition BEFORE_spec :: "time \<Rightarrow> time \<Rightarrow> real \<Rightarrow> bool" where
  "BEFORE_spec now t days =
     (real_of_int (Since now t) > days * 86400 * real_of_int Second)"

section \<open>Auxiliary facts\<close>

text \<open>A value in the range of \<open>int64\<close> is not changed by the wrap-around.\<close>

lemma int64_id: "- (2 ^ 63) \<le> x \<Longrightarrow> x < 2 ^ 63 \<Longrightarrow> int64 x = x"
  by (simp add: int64_def)

text \<open>Only \<open>BEFORE\<close> reads the clock.\<close>

lemma applyOperator_clock:
  "op \<noteq> BEFORE \<Longrightarrow> applyOperator rx now op l r = applyOperator rx now' op l r"
  by (cases op) (simp_all add: applyOperator_def)

lemma evaluateSubtree_clock:
  "\<not> usesBEFORE e \<Longrightarrow> evaluateSubtree rx now e args = evaluateSubtree rx now' e args"
proof (induction e)
  case (BinaryExpr op lhs rhs)
  then have "op \<noteq> BEFORE" "\<not> usesBEFORE lhs" "\<not> usesBEFORE rhs"
    by simp_all
  with BinaryExpr.IH show ?case
    by (simp add: applyOperator_clock [of op rx now _ _ now']
        split: result.splits option.splits)
qed simp_all

text \<open>Only a variable reference reads the record; against a record that is neither
  map nor struct, the first one reached ends the reduction with an error.\<close>

lemma evaluateSubtree_ignores_record:
  "\<not> hasVarRef e \<Longrightarrow> evaluateSubtree rx now e args = evaluateSubtree rx now e args'"
  by (induction e) (simp_all split: result.splits option.splits)

lemma evaluateSubtree_not_record:
  assumes "k \<noteq> reflect_Map" "k \<noteq> reflect_Struct"
  shows "hasVarRef e \<Longrightarrow>
    (\<exists>p. evaluateSubtree rx now e (ArgsOther k) = Panic p)
    \<or> (\<exists>v err. evaluateSubtree rx now e (ArgsOther k) = Ret v (Some err))"
proof (induction e)
  case (VarRef name)
  from assms show ?case
    by (cases k) (simp_all add: resolveVarRef_def)
next
  case (BinaryExpr op lhs rhs)
  then show ?case
    by (auto split: result.splits option.splits)
qed simp_all

text \<open>\<open>EQ\<close> and \<open>NEQ\<close> on a left operand that passes one of the three trials: with
  a right operand of the same kind the result is the equality (for \<open>NEQ\<close> the
  inequality) of the two values, and with any other right operand it is the error
  "cannot compare X with non-X" of the kind X of the left operand. (The nil
  \<open>*BooleanLiteral\<close> has the type of a boolean and no value to read.)\<close>

lemma applyEQ_applyNQ_same_trial:
  "applyEQ (StringLiteral a) r =
     (case r of StringLiteral b \<Rightarrow> Ret (Some (a = b)) None
      | _ \<Rightarrow> Ret (Some False) (Some CannotCompareString))
   \<and> applyEQ (NumberLiteral x) r =
     (case r of NumberLiteral y \<Rightarrow> Ret (Some (x = y)) None
      | _ \<Rightarrow> Ret (Some False) (Some CannotCompareNumber))
   \<and> applyEQ (BooleanLiteral p) r =
     (case r of BooleanLiteral q \<Rightarrow> Ret (Some (p = q)) None
      | NilBooleanLiteral \<Rightarrow> Panic NilPointerDereference
      | _ \<Rightarrow> Ret (Some False) (Some CannotCompareBoolean))
   \<and> applyNQ (StringLiteral a) r =
     (case r of StringLiteral b \<Rightarrow> Ret (Some (a \<noteq> b)) None
      | _ \<Rightarrow> Ret (Some False) (Some CannotCompareString))
   \<and> applyNQ (NumberLiteral x) r =
     (case r of NumberLiteral y \<Rightarrow> Ret (Some (x \<noteq> y)) None
      | _ \<Rightarrow> Ret (Some False) (Some CannotCompareNumber))
   \<and> applyNQ (BooleanLiteral p) r =
     (case r of BooleanLiteral q \<Rightarrow> Ret (Some (p \<noteq> q)) None
      | NilBooleanLiteral \<Rightarrow> Panic NilPointerDereference
      | _ \<Rightarrow> Ret (Some False) (Some CannotCompareBoolean))"
  by (cases r) (simp_all add: applyEQ_def applyNQ_def falseExpr_def)

text \<open>Where the negated operators do follow the operators they negate: \<open>NEQ\<close> on
  the comparable pairs, \<open>NAND\<close> on every pair, \<open>NOTIN\<close> and \<open>NEREG\<close> on the pairs
  for which \<open>applyIN\<close> and \<open>applyEREG\<close> return a literal.\<close>

lemma applyNQ_negates_applyEQ:
  "comparable l r \<Longrightarrow>
     \<exists>b. applyEQ l r = Ret (Some b) None \<and> applyNQ l r = Ret (Some (\<not> b)) None"
  by (induction l r rule: comparable.induct) (simp_all add: applyEQ_def applyNQ_def)

lemma applyNAND_negates_applyAND:
  "applyNAND l r =
     (case applyAND l r of
        Ret (Some b) err \<Rightarrow> Ret (Some (\<not> b)) err
      | other \<Rightarrow> other)"
  by (auto simp: applyAND_def applyNAND_def split: result.splits option.splits)

lemma applyNOTIN_negates_applyIN:
  "applyIN l r = Ret (Some b) err \<Longrightarrow> applyNOTIN l r = Ret (Some (\<not> b)) err"
  by (simp add: applyNOTIN_def)

lemma applyNEREG_negates_applyEREG:
  "applyEREG rx l r = Ret (Some b) err \<Longrightarrow> applyNEREG rx l r = Ret (Some (\<not> b)) err"
  by (simp add: applyNEREG_def)

section \<open>Properties\<close>

text \<open>
  C1. The claim: every failure of \<open>Evaluate\<close> is an ordinary returned error, and no
  input makes the process panic; in particular not \<open>NOTIN\<close>, \<open>NEREG\<close> or the
  resolution of a variable. The code panics on each of the three: \<open>1 NOTIN 2\<close> and
  \<open>1 NEREG "a"\<close> dereference the nil pointer that \<open>applyIN\<close> and \<open>applyEREG\<close> return
  beside their error, whatever the record is, and a variable evaluated against the
  nil record calls \<open>Kind\<close> on a nil \<open>reflect.Type\<close>.
\<close>

theorem Evaluate_panics:
  "Evaluate rx now (BinaryExpr NOTIN (NumberLiteral 1) (NumberLiteral 2)) args
     = Panic NilPointerDereference
   \<and> Evaluate rx now (BinaryExpr NEREG (NumberLiteral 1) (StringLiteral ''a'')) args
     = Panic NilPointerDereference
   \<and> Evaluate rx now (VarRef ''X'') ArgsNil = Panic NilPointerDereference"
  by (simp add: Evaluate_def applyOperator_def applyNOTIN_def applyIN_def
      applyNEREG_def applyEREG_def resolveVarRef_def)

text \<open>
  C2. The claim: an operator applied to operands of the wrong kinds gives a typed
  error that aborts the evaluation, never a silent \<open>false\<close>. The code gives \<open>false\<close>
  and no error where \<open>BEFORE\<close> has a time on the left and anything but a number on
  the right, and where \<open>EQ\<close> or \<open>NEQ\<close> has a left operand that is neither string,
  number nor boolean; the evaluation then goes on with that \<open>false\<close>.
\<close>

theorem mismatched_kinds_give_false:
  "applyOperator rx now BEFORE (TimeLiteral t) (StringLiteral s) = Ret (Some False) None
   \<and> applyOperator rx now EQ (TimeLiteral t) (StringLiteral s) = Ret (Some False) None
   \<and> applyOperator rx now NEQ (SliceStringLiteral ss) (StringLiteral s)
     = Ret (Some False) None
   \<and> Evaluate rx now (BinaryExpr EQ (VarRef ''Birth'') (StringLiteral ''x''))
       (ArgsMap [''Birth'' \<mapsto> VTime 0]) = Ret False None"
  by (simp add: Evaluate_def applyOperator_def applyBefore_def applyEQ_def applyNQ_def
      falseExpr_def resolveVarRef_def classifyArg_def)

text \<open>
  C3. The claim: \<open>Evaluate\<close> is a function of the expression and the record alone.
  \<open>applyBefore\<close> reads the clock through \<open>time.Since\<close>, so the result of an
  expression with \<open>BEFORE\<close> also depends on when it is evaluated. What holds: for an
  expression without the operator \<open>BEFORE\<close>, the result is the same at every reading
  of the clock, so it is a function of the expression and the record (and of the
  clock reading too, for every expression).
\<close>

theorem Evaluate_clock_independent:
  "\<not> usesBEFORE e \<Longrightarrow> Evaluate rx now e args = Evaluate rx now' e args"
  by (simp add: Evaluate_def evaluateSubtree_clock [of e rx now args now'])

theorem Evaluate_clock_independent_witness:
  "\<not> usesBEFORE (BinaryExpr AND
        (BinaryExpr EQ (VarRef ''Name'') (StringLiteral ''test''))
        (BinaryExpr GT (VarRef ''Height'') (NumberLiteral 100)))
   \<and> Evaluate literalMatcher 0 (BinaryExpr AND
        (BinaryExpr EQ (VarRef ''Name'') (StringLiteral ''test''))
        (BinaryExpr GT (VarRef ''Height'') (NumberLiteral 100)))
        (ArgsMap [''Name'' \<mapsto> VString ''test'', ''Height'' \<mapsto> VInt 180]) = Ret True None
   \<and> Evaluate literalMatcher 86400000000000 (BinaryExpr AND
        (BinaryExpr EQ (VarRef ''Name'') (StringLiteral ''test''))
        (BinaryExpr GT (VarRef ''Height'') (NumberLiteral 100)))
        (ArgsMap [''Name'' \<mapsto> VString ''test'', ''Height'' \<mapsto> VInt 180]) = Ret True None"
proof -
  have h: "\<not> usesBEFORE (BinaryExpr AND
        (BinaryExpr EQ (VarRef ''Name'') (StringLiteral ''test''))
        (BinaryExpr GT (VarRef ''Height'') (NumberLiteral 100)))"
    by simp
  have v: "Evaluate literalMatcher 0 (BinaryExpr AND
        (BinaryExpr EQ (VarRef ''Name'') (StringLiteral ''test''))
        (BinaryExpr GT (VarRef ''Height'') (NumberLiteral 100)))
        (ArgsMap [''Name'' \<mapsto> VString ''test'', ''Height'' \<mapsto> VInt 180]) = Ret True None"
    by (simp add: Evaluate_def resolveVarRef_def classifyArg_def applyOperator_def
        applyAND_def applyEQ_def applyGT_def)
  from Evaluate_clock_independent [OF h, of literalMatcher 0
      "ArgsMap [''Name'' \<mapsto> VString ''test'', ''Height'' \<mapsto> VInt 180]" 86400000000000]
    h v
  show ?thesis
    by simp
qed

text \<open>The claim as it is written fails on \<open>$Birth BEFORE 1\<close>: with \<open>Birth\<close> at the
  instant 0, the evaluation twelve hours later gives \<open>false\<close> and the evaluation
  thirty-six hours later gives \<open>true\<close>.\<close>

theorem Evaluate_clock_counterexample:
  "Evaluate literalMatcher 43200000000000
     (BinaryExpr BEFORE (VarRef ''Birth'') (NumberLiteral 1)) (ArgsMap [''Birth'' \<mapsto> VTime 0])
   \<noteq> Evaluate literalMatcher 129600000000000
     (BinaryExpr BEFORE (VarRef ''Birth'') (NumberLiteral 1)) (ArgsMap [''Birth'' \<mapsto> VTime 0])"
  by (simp add: Evaluate_def resolveVarRef_def classifyArg_def applyOperator_def
      applyBefore_def DurationOfFloat_def trunc_def int64_def Since_def Second_def)

text \<open>
  C4. The claim: with a record that is neither a map nor a struct, \<open>Evaluate\<close>
  returns an error whatever the expression is. The code looks at the record only
  where it resolves a variable. What holds, for a record that is not nil and neither
  map nor struct: a variable reference evaluates to the error "not map or struct";
  an expression with a variable reference among its nodes never gives a result, it
  gives an error beside \<open>false\<close> (unless the evaluation panics before); and an
  expression without a variable reference evaluates as it does against any other
  record.
\<close>

theorem Evaluate_not_record:
  assumes "k \<noteq> reflect_Map" and "k \<noteq> reflect_Struct"
  shows "Evaluate rx now (VarRef name) (ArgsOther k) = Ret False (Some ArgsIsNotMapOrStruct)
    \<and> (hasVarRef e \<longrightarrow>
          (\<exists>p. Evaluate rx now e (ArgsOther k) = Panic p)
          \<or> (\<exists>err. Evaluate rx now e (ArgsOther k) = Ret False (Some err)))
    \<and> (\<not> hasVarRef e' \<longrightarrow>
          Evaluate rx now e' (ArgsOther k) = Evaluate rx now e' args)"
proof (intro conjI impI)
  from assms show "Evaluate rx now (VarRef name) (ArgsOther k)
      = Ret False (Some ArgsIsNotMapOrStruct)"
    by (cases k) (simp_all add: Evaluate_def resolveVarRef_def)
next
  assume "hasVarRef e"
  from evaluateSubtree_not_record [OF assms this, of rx now]
  show "(\<exists>p. Evaluate rx now e (ArgsOther k) = Panic p)
          \<or> (\<exists>err. Evaluate rx now e (ArgsOther k) = Ret False (Some err))"
    by (auto simp: Evaluate_def)
next
  assume "\<not> hasVarRef e'"
  then show "Evaluate rx now e' (ArgsOther k) = Evaluate rx now e' args"
    by (simp add: Evaluate_def
        evaluateSubtree_ignores_record [of e' rx now "ArgsOther k" args])
qed

theorem Evaluate_not_record_witness:
  "reflect_String \<noteq> reflect_Map \<and> reflect_String \<noteq> reflect_Struct
   \<and> hasVarRef (BinaryExpr AND
        (BinaryExpr EQ (VarRef ''Name'') (StringLiteral ''test''))
        (BinaryExpr GT (VarRef ''Height'') (NumberLiteral 100)))
   \<and> Evaluate literalMatcher 0 (BinaryExpr AND
        (BinaryExpr EQ (VarRef ''Name'') (StringLiteral ''test''))
        (BinaryExpr GT (VarRef ''Height'') (NumberLiteral 100))) (ArgsOther reflect_String)
      = Ret False (Some ArgsIsNotMapOrStruct)
   \<and> \<not> hasVarRef (BinaryExpr GT (NumberLiteral 1) (NumberLiteral 0))
   \<and> Evaluate literalMatcher 0 (BinaryExpr GT (NumberLiteral 1) (NumberLiteral 0))
        (ArgsOther reflect_String) = Ret True None"
proof -
  have k: "reflect_String \<noteq> reflect_Map" "reflect_String \<noteq> reflect_Struct"
    by simp_all
  note inst = Evaluate_not_record [OF k, where rx = literalMatcher and now = 0
      and name = "''Name''"
      and e = "BinaryExpr AND
        (BinaryExpr EQ (VarRef ''Name'') (StringLiteral ''test''))
        (BinaryExpr GT (VarRef ''Height'') (NumberLiteral 100))"
      and e' = "BinaryExpr GT (NumberLiteral 1) (NumberLiteral 0)"
      and args = ArgsNil]
  from inst show ?thesis
    by (simp add: Evaluate_def resolveVarRef_def falseExpr_def applyOperator_def
        applyGT_def)
qed

text \<open>The claim as it is written fails on the expression \<open>true\<close> and the record
  \<open>""\<close>: the result is \<open>true\<close>, without error.\<close>

theorem Evaluate_without_variable_counterexample:
  "Evaluate literalMatcher 0 (BooleanLiteral True) (ArgsOther reflect_String)
   = Ret True None"
  by (simp add: Evaluate_def)

text \<open>
  C5. The claim: the value found for a variable becomes a literal after its runtime
  type, and a value of any other type, a sequence of integers for one, gives the
  error "unsupported argument type". On a \<open>[]int\<close> the code panics: its kind is
  \<open>reflect.Slice\<close>, and the case of that kind asserts \<open>val.([]string)\<close>. The same
  happens for every value that has one of the eight kinds of the switch and not the
  type its case asserts, a \<open>time.Duration\<close> for one.
\<close>

theorem classify_other_slice_panics:
  "evaluateSubtree rx now (VarRef ''X'') (ArgsMap [''X'' \<mapsto> VOther reflect_Slice])
     = Panic InterfaceConversion
   \<and> Evaluate rx now (VarRef ''X'') (ArgsMap [''X'' \<mapsto> VOther reflect_Slice])
     = Panic InterfaceConversion
   \<and> evaluateSubtree rx now (VarRef ''X'') (ArgsMap [''X'' \<mapsto> VOther reflect_Int64])
     = Panic InterfaceConversion"
  by (simp add: Evaluate_def resolveVarRef_def classifyArg_def)

text \<open>
  C6. The claim: \<open>BEFORE\<close> on a time and a number of days is true exactly when the
  time elapsed since the timestamp exceeds the days times 86400 seconds, the
  comparison being strict. The code converts the number with \<open>time.Duration(days)\<close>
  before it multiplies, which drops the fraction of a day. What holds: \<open>BEFORE\<close> is
  true exactly when the elapsed time strictly exceeds the whole days of the right
  operand (truncated towards zero) times 86400 seconds, for at most 106751 days in
  absolute value, the range in which the product in nanoseconds is an \<open>int64\<close>.
\<close>

theorem applyBefore_whole_days:
  assumes "\<bar>trunc days\<bar> \<le> 106751"
  shows "applyBefore now (TimeLiteral t) (NumberLiteral days)
         = Ret (Some (Since now t > trunc days * 86400 * Second)) None"
proof -
  from assms have d: "DurationOfFloat days = trunc days"
    by (auto simp: DurationOfFloat_def)
  from assms have b1: "- (2 ^ 63) \<le> trunc days * Second" "trunc days * Second < 2 ^ 63"
    by (simp_all add: Second_def)
  from assms have b2: "- (2 ^ 63) \<le> trunc days * Second * 86400"
    "trunc days * Second * 86400 < 2 ^ 63"
    by (simp_all add: Second_def)
  have "int64 (int64 (DurationOfFloat days * Second) * 86400)
      = trunc days * Second * 86400"
    using d b1 b2 by (simp add: int64_id)
  then show ?thesis
    by (simp add: applyBefore_def mult.commute mult.left_commute)
qed

theorem applyBefore_whole_days_witness:
  "\<bar>trunc (3 / 2)\<bar> \<le> 106751
   \<and> applyBefore 86400000000000 (TimeLiteral 0) (NumberLiteral (3 / 2))
       = Ret (Some False) None
   \<and> applyBefore 86400000000001 (TimeLiteral 0) (NumberLiteral (3 / 2))
       = Ret (Some True) None"
proof -
  have h: "\<bar>trunc (3 / 2)\<bar> \<le> 106751"
    by (simp add: trunc_def)
  show ?thesis
    using h applyBefore_whole_days [OF h, of 86400000000000 0]
      applyBefore_whole_days [OF h, of 86400000000001 0]
    by (simp add: trunc_def Since_def Second_def)
qed

text \<open>The claim as it is written fails on half a day: one hour after the timestamp,
  \<open>BEFORE 0.5\<close> is true, and one hour does not exceed twelve hours.\<close>

theorem applyBefore_counterexample:
  "applyBefore 3600000000000 (TimeLiteral 0) (NumberLiteral (1 / 2)) = Ret (Some True) None
   \<and> \<not> BEFORE_spec 3600000000000 0 (1 / 2)"
  by (simp add: applyBefore_def DurationOfFloat_def trunc_def int64_def Since_def
      Second_def BEFORE_spec_def)

text \<open>
  C7. A binary expression reduces its left operand, then its right operand, and
  only then applies the operator, whatever the operator is: when the left operand
  has reduced without error, an error (or a panic) of the right operand is the
  outcome of the whole evaluation, also under \<open>AND\<close> with a left operand \<open>false\<close>;
  and an error of the left operand is the outcome whatever the right operand is.
\<close>

theorem no_short_circuit:
  "(evaluateSubtree rx now lhs args = Ret lv None \<longrightarrow>
    evaluateSubtree rx now rhs args = Ret rv (Some err) \<longrightarrow>
      Evaluate rx now (BinaryExpr op lhs rhs) args = Ret False (Some err))
   \<and> (evaluateSubtree rx now lhs' args' = Ret lv' None \<longrightarrow>
    evaluateSubtree rx now rhs' args' = Panic p \<longrightarrow>
      Evaluate rx now (BinaryExpr op' lhs' rhs') args' = Panic p)
   \<and> (evaluateSubtree rx now lhs'' args'' = Ret lv'' (Some err'') \<longrightarrow>
      Evaluate rx now (BinaryExpr op'' lhs'' rhs'') args'' = Ret False (Some err''))"
  by (simp add: Evaluate_def)

theorem no_short_circuit_witness:
  "evaluateSubtree literalMatcher 0 (BooleanLiteral False) (ArgsMap Map.empty)
     = Ret (BooleanLiteral False) None
   \<and> evaluateSubtree literalMatcher 0 (VarRef ''X'') (ArgsMap Map.empty)
     = Ret (BooleanLiteral False) (Some (ArgumentNotFound ''X''))
   \<and> Evaluate literalMatcher 0 (BinaryExpr AND (BooleanLiteral False) (VarRef ''X''))
       (ArgsMap Map.empty) = Ret False (Some (ArgumentNotFound ''X''))
   \<and> evaluateSubtree literalMatcher 0 (BooleanLiteral True) ArgsNil
     = Ret (BooleanLiteral True) None
   \<and> evaluateSubtree literalMatcher 0 (VarRef ''Y'') ArgsNil = Panic NilPointerDereference
   \<and> Evaluate literalMatcher 0 (BinaryExpr OR (BooleanLiteral True) (VarRef ''Y'')) ArgsNil
     = Panic NilPointerDereference
   \<and> Evaluate literalMatcher 0 (BinaryExpr OR (VarRef ''X'') (VarRef ''Y''))
       (ArgsMap Map.empty) = Ret False (Some (ArgumentNotFound ''X''))"
proof -
  have l: "evaluateSubtree literalMatcher 0 (BooleanLiteral False) (ArgsMap Map.empty)
     = Ret (BooleanLiteral False) None"
    by simp
  have r: "evaluateSubtree literalMatcher 0 (VarRef ''X'') (ArgsMap Map.empty)
     = Ret (BooleanLiteral False) (Some (ArgumentNotFound ''X''))"
    by (simp add: resolveVarRef_def falseExpr_def)
  have l2: "evaluateSubtree literalMatcher 0 (BooleanLiteral True) ArgsNil
     = Ret (BooleanLiteral True) None"
    by simp
  have r2: "evaluateSubtree literalMatcher 0 (VarRef ''Y'') ArgsNil
     = Panic NilPointerDereference"
    by (simp add: resolveVarRef_def)
  note inst = no_short_circuit [where rx = literalMatcher and now = 0
      and lhs = "BooleanLiteral False" and rhs = "VarRef ''X''" and op = AND
      and args = "ArgsMap Map.empty" and lv = "BooleanLiteral False"
      and rv = "BooleanLiteral False" and err = "ArgumentNotFound ''X''"
      and lhs' = "BooleanLiteral True" and rhs' = "VarRef ''Y''" and op' = OR
      and args' = ArgsNil and lv' = "BooleanLiteral True" and p = NilPointerDereference
      and lhs'' = "VarRef ''X''" and rhs'' = "VarRef ''Y''" and op'' = OR
      and args'' = "ArgsMap Map.empty" and lv'' = "BooleanLiteral False"
      and err'' = "ArgumentNotFound ''X''"]
  from inst l r l2 r2 show ?thesis
    by simp
qed

text \<open>
  C8. The claim: \<open>EQ\<close> and \<open>NEQ\<close> try string, number and boolean in that order, give
  the equality (the inequality) of two operands of the same kind, and give an error
  "cannot compare X with non-X" for mismatched kinds. The code gives that error only
  when the left operand passes one of the three trials. With a left operand that
  fails all three, a time or a sequence of strings, both functions end with
  \<open>return falseExpr, nil\<close>: whatever the right operand is, the result is \<open>false\<close>
  and no error, as in \<open>$Goods != "A"\<close> with a sequence of strings for \<open>Goods\<close>.
\<close>

theorem applyEQ_applyNQ_untried_left_operand:
  "applyEQ (TimeLiteral t) r = Ret (Some False) None
   \<and> applyNQ (TimeLiteral t) r = Ret (Some False) None
   \<and> applyEQ (SliceStringLiteral ss) r = Ret (Some False) None
   \<and> applyNQ (SliceStringLiteral ss) r = Ret (Some False) None
   \<and> Evaluate rx now (BinaryExpr NEQ (VarRef ''Goods'') (StringLiteral ''A''))
       (ArgsMap [''Goods'' \<mapsto> VSliceString [''A'', ''B'']]) = Ret False None"
  by (simp add: Evaluate_def applyOperator_def applyEQ_def applyNQ_def falseExpr_def
      resolveVarRef_def classifyArg_def)

text \<open>
  C9. The claim: \<open>NEQ\<close> is the negation of \<open>EQ\<close> on the comparable pairs, and
  \<open>NOTIN\<close>, \<open>NAND\<close>, \<open>NEREG\<close> are the negations of \<open>IN\<close>, \<open>AND\<close>, \<open>EREG\<close> on all
  pairs. The code breaks the laws of \<open>NOTIN\<close> and \<open>NEREG\<close> on the pairs that \<open>IN\<close>
  and \<open>EREG\<close> refuse: on \<open>1\<close> and \<open>2\<close>, \<open>applyIN\<close> returns the nil pointer and an
  error, and \<open>applyNOTIN\<close> panics on that nil pointer in place of returning the same;
  on \<open>1\<close> and \<open>"a"\<close>, \<open>applyEREG\<close> and \<open>applyNEREG\<close> do the same.
\<close>

theorem applyNOTIN_applyNEREG_panic:
  "applyIN (NumberLiteral 1) (NumberLiteral 2)
     = Ret None (Some (NotASliceOfFloat64 (NumberLiteral 2)))
   \<and> applyNOTIN (NumberLiteral 1) (NumberLiteral 2) = Panic NilPointerDereference
   \<and> applyEREG rx (NumberLiteral 1) (StringLiteral ''a'')
     = Ret None (Some (NotAString (NumberLiteral 1)))
   \<and> applyNEREG rx (NumberLiteral 1) (StringLiteral ''a'') = Panic NilPointerDereference"
  by (simp add: applyIN_def applyNOTIN_def applyEREG_def applyNEREG_def)

text \<open>
  C10. When \<open>Evaluate\<close> returns an error, the boolean beside it is \<open>false\<close>.
\<close>

theorem Evaluate_error_false:
  "Evaluate rx now e args = Ret b (Some err) \<Longrightarrow> b = False"
  by (auto simp: Evaluate_def split: if_splits result.splits option.splits Expr.splits)

theorem Evaluate_error_false_witness:
  "Evaluate literalMatcher 0 (BinaryExpr GT (NumberLiteral 1) (StringLiteral ''a''))
     (ArgsOther reflect_String)
   = Ret False (Some (NotANumber (StringLiteral ''a'')))"
proof -
  have h: "Evaluate literalMatcher 0 (BinaryExpr GT (NumberLiteral 1) (StringLiteral ''a''))
     (ArgsOther reflect_String)
   = Ret False (Some (NotANumber (StringLiteral ''a'')))"
    by (simp add: Evaluate_def applyOperator_def applyGT_def)
  show ?thesis
    using h Evaluate_error_false [OF h] by simp
qed

end
